theory Spec2Isabelle
  imports Main
begin

section \<open>Values of the manager (src/src/manager.ts)\<close>

text \<open>
  An error object, as far as the manager looks at it: \<^verbatim>\<open>error.code\<close> is compared with
  \<^verbatim>\<open>===\<close> against one constant; an error that has no \<^verbatim>\<open>code\<close> property reads
  \<^verbatim>\<open>undefined\<close> there, which is \<open>None\<close>. A code is a string or a number.
\<close>

datatype js_code = CodeString string | CodeNumber int

record js_error =
  code :: "js_code option"
  message :: string

text \<open>
  \<^verbatim>\<open>Library\<close> and \<^verbatim>\<open>LibraryName\<close> are declared in \<^verbatim>\<open>./types\<close>; the manager only
  passes them on. A library is an object (always truthy), told apart by a handle.
\<close>

datatype Library = LibraryHandle nat

type_synonym LibraryName = string

text \<open>
  \<^verbatim>\<open>account?: string | null\<close>: three cases, kept apart because the code tests
  \<^verbatim>\<open>!== undefined\<close> in one place and \<^verbatim>\<open>!== null\<close> in another.
\<close>

datatype account_value = AccountUndefined | AccountNull | Account string

text \<open>
  \<^verbatim>\<open>interface Web3State\<close>. An optional field is an \<open>option\<close> (\<open>None\<close> is
  \<^verbatim>\<open>undefined\<close>); \<^verbatim>\<open>error: Error | null\<close> is an \<open>option\<close> whose \<open>None\<close> is
  \<^verbatim>\<open>null\<close>. Network ids are integers.
\<close>

record Web3State =
  connectorName :: "string option"
  library :: "Library option"
  networkId :: "int option"
  account :: account_value
  error :: "js_error option"

definition initialWeb3State :: Web3State where
  "initialWeb3State =
     \<lparr>connectorName = None, library = None, networkId = None,
      account = AccountUndefined, error = None\<rparr>"

text \<open>
  The actions, by their \<^verbatim>\<open>type\<close> tag and payload. \<open>OTHER\<close> stands for any tag the
  \<^verbatim>\<open>switch\<close> does not list.
\<close>

datatype action =
    UPDATE_CONNECTOR_VALUES string Library int account_value
  | UPDATE_NETWORK_ID int
  | UPDATE_ACCOUNT account_value
  | UPDATE_ERROR js_error
  | UPDATE_ERROR_WITH_NAME js_error string
  | RESET
  | OTHER string

fun web3StateReducer :: "Web3State \<Rightarrow> action \<Rightarrow> js_error + Web3State" where
  "web3StateReducer state (UPDATE_CONNECTOR_VALUES cn lib nid acc) =
     Inr \<lparr>connectorName = Some cn, library = Some lib, networkId = Some nid,
          account = acc, error = None\<rparr>"
| "web3StateReducer state (UPDATE_NETWORK_ID nid) = Inr (state\<lparr>networkId := Some nid\<rparr>)"
| "web3StateReducer state (UPDATE_ACCOUNT acc) = Inr (state\<lparr>account := acc\<rparr>)"
| "web3StateReducer state (UPDATE_ERROR e) = Inr (state\<lparr>error := Some e\<rparr>)"
| "web3StateReducer state (UPDATE_ERROR_WITH_NAME e cn) =
     Inr (state\<lparr>error := Some e, connectorName := Some cn\<rparr>)"
| "web3StateReducer state RESET = Inr initialWeb3State"
| "web3StateReducer state (OTHER t) = Inl \<lparr>code = None, message = ''No default case.''\<rparr>"

subsection \<open>Truthiness\<close>

text \<open>
  The manager tests several values with \<^verbatim>\<open>&&\<close>, \<^verbatim>\<open>!\<close> and \<^verbatim>\<open>if (x)\<close>. A string is
  truthy when it is not empty, a number when it is not zero, and \<^verbatim>\<open>undefined\<close> is falsy.
\<close>

definition truthy_string :: "string option \<Rightarrow> bool" where
  "truthy_string s = (case s of None \<Rightarrow> False | Some x \<Rightarrow> x \<noteq> [])"

definition truthy_number :: "int option \<Rightarrow> bool" where
  "truthy_number n = (case n of None \<Rightarrow> False | Some x \<Rightarrow> x \<noteq> 0)"

definition web3Initialized :: "Web3State \<Rightarrow> bool" where
  "web3Initialized s \<longleftrightarrow>
     truthy_string (connectorName s) \<and>
     library s \<noteq> None \<and>
     truthy_number (networkId s) \<and>
     account s \<noteq> AccountUndefined \<and>
     error s = None"

section \<open>Connectors and the world the manager runs in\<close>

text \<open>
  A promise has settled one way or the other by the time the manager looks at it.
\<close>

datatype 'a settled = Resolves 'a | Rejects js_error

text \<open>
  The \<^verbatim>\<open>Connector\<close> class is in \<^verbatim>\<open>./connectors\<close>; the manager uses the members below.
  Each method returns a promise, so a connector is given by how each of its promises
  settles. \<open>cid\<close> is the identity of the object (what \<^verbatim>\<open>Object.is\<close> compares).
  When both promises handed to \<^verbatim>\<open>Promise.all\<close> reject, the one that rejects first
  wins: \<open>accountSettlesFirst\<close> says that this is the account promise.
\<close>

record Connector =
  cid :: nat
  onActivation :: "unit settled"
  getLibrary :: "LibraryName \<Rightarrow> Library settled"
  getNetworkId :: "Library \<Rightarrow> int settled"
  getAccount :: "Library \<Rightarrow> account_value settled"
  activateAccountImmediately :: bool
  listenForNetworkChanges :: bool
  listenForAccountChanges :: bool
  accountSettlesFirst :: bool

text \<open>
  The arguments of \<^verbatim>\<open>useWeb3Manager\<close> and the two things it reads from outside:
  the constant \<^verbatim>\<open>WalletConnectConnector.errorCodes.WALLETCONNECT_TIMEOUT\<close> (declared in
  \<^verbatim>\<open>./connectors\<close>, so a parameter here) and whether \<^verbatim>\<open>window.ethereum\<close> has both
  \<^verbatim>\<open>on\<close> and \<^verbatim>\<open>removeListener\<close>. The registry is an object: its keys are distinct,
  and \<^verbatim>\<open>Object.keys\<close> lists them.
\<close>

record config =
  connectors :: "(string \<times> Connector) list"
  libraryName :: LibraryName
  WALLETCONNECT_TIMEOUT :: js_code
  ethereumListenable :: bool

text \<open>
  What the manager does to the outside, in the order it does it. A handler handed to
  \<^verbatim>\<open>ethereum.on\<close> is a function object of one render; it is told apart by the identity
  of the connector that was active in that render.
\<close>

datatype event =
    ConsoleError
  | Call_onActivation nat
  | Call_getLibrary nat LibraryName
  | Call_getNetworkId nat Library
  | Call_getAccount nat Library
  | Call_onDeactivation nat
  | Dispatch action
  | ReducerThrew js_error
  | EthereumOn string nat
  | EthereumRemoveListener string nat

text \<open>
  What React keeps for the three \<^verbatim>\<open>useEffect\<close> calls between renders: the dependency
  array of the last run and the cleanup that run returned. The first effect's cleanup
  calls \<^verbatim>\<open>onDeactivation\<close> of the connector it closed over; the other two remove the
  handler they installed (\<open>None\<close>: the effect returned no cleanup).
\<close>

type_synonym listener_deps = "bool \<times> nat option \<times> string option"

record hooks =
  connectorDeps :: "nat option"
  connectorCleanup :: "nat option"
  networkDeps :: listener_deps
  networkCleanup :: "nat option"
  accountDeps :: listener_deps
  accountCleanup :: "nat option"

text \<open>
  \<open>web3State\<close> is the snapshot the reducer has produced last, \<open>trace\<close> everything that
  has happened so far.
\<close>

record world =
  web3State :: Web3State
  hooks :: hooks
  trace :: "event list"

definition emit :: "event list \<Rightarrow> world \<Rightarrow> world" where
  "emit es w = w\<lparr>trace := trace w @ es\<rparr>"

text \<open>
  \<^verbatim>\<open>web3State.connectorName ? connectors[web3State.connectorName] : undefined\<close>
\<close>

definition activeConnector :: "config \<Rightarrow> Web3State \<Rightarrow> Connector option" where
  "activeConnector cfg s =
     (case connectorName s of
        None \<Rightarrow> None
      | Some n \<Rightarrow> if n \<noteq> [] then map_of (connectors cfg) n else None)"

definition activeId :: "config \<Rightarrow> Web3State \<Rightarrow> nat option" where
  "activeId cfg s = map_option cid (activeConnector cfg s)"

subsection \<open>Rendering: the three effects\<close>

text \<open>
  The hook declares three effects:
  \<^item> \<^verbatim>\<open>useEffect(() => { if (activeConnector) return () => activeConnector.onDeactivation() }, [activeConnector])\<close>;
  \<^item> one that, under \<^verbatim>\<open>web3Initialized && activeConnector && activeConnector.listenForNetworkChanges\<close>
    and \<^verbatim>\<open>ethereum && ethereum.on && ethereum.removeListener\<close>, installs the
    \<^verbatim>\<open>networkChanged\<close> handler and returns the function that removes it, with the
    dependencies \<^verbatim>\<open>[web3Initialized, activeConnector, web3State.connectorName]\<close>;
  \<^item> the same for \<^verbatim>\<open>listenForAccountChanges\<close> and \<^verbatim>\<open>accountsChanged\<close>.

  When the effects of a render run, React compares each effect's dependency array with
  the one of its last run. For the effects whose array changed it first runs the old
  cleanups, in the order of the effects, and then the new effect bodies, in the same
  order. On unmount it runs every cleanup that is left.
\<close>

definition listenerDeps :: "config \<Rightarrow> Web3State \<Rightarrow> listener_deps" where
  "listenerDeps cfg s = (web3Initialized s, activeId cfg s, connectorName s)"

text \<open>
  The handler the second effect installs for the snapshot \<open>s\<close>, if it installs one, and
  the same for the third.
\<close>

definition networkHandler :: "config \<Rightarrow> Web3State \<Rightarrow> nat option" where
  "networkHandler cfg s =
     (case activeConnector cfg s of
        None \<Rightarrow> None
      | Some c \<Rightarrow>
          if web3Initialized s \<and> listenForNetworkChanges c \<and> ethereumListenable cfg
          then Some (cid c) else None)"

definition accountHandler :: "config \<Rightarrow> Web3State \<Rightarrow> nat option" where
  "accountHandler cfg s =
     (case activeConnector cfg s of
        None \<Rightarrow> None
      | Some c \<Rightarrow>
          if web3Initialized s \<and> listenForAccountChanges c \<and> ethereumListenable cfg
          then Some (cid c) else None)"

text \<open>Running a cleanup, if the effect returned one; running a body that installs.\<close>

definition connectorCleanupEvents :: "nat option \<Rightarrow> event list" where
  "connectorCleanupEvents cl = (case cl of None \<Rightarrow> [] | Some c \<Rightarrow> [Call_onDeactivation c])"

definition removeEvents :: "string \<Rightarrow> nat option \<Rightarrow> event list" where
  "removeEvents ev cl = (case cl of None \<Rightarrow> [] | Some c \<Rightarrow> [EthereumRemoveListener ev c])"

definition installEvents :: "string \<Rightarrow> nat option \<Rightarrow> event list" where
  "installEvents ev handler = (case handler of None \<Rightarrow> [] | Some c \<Rightarrow> [EthereumOn ev c])"

text \<open>
  The events of the effects of one render with the snapshot \<open>s\<close>: \<open>cleanups\<close> and then
  \<open>bodies\<close>; \<open>rerun\<close> is what React keeps afterwards. The body of the first effect
  calls nothing.
\<close>

definition cleanups :: "config \<Rightarrow> Web3State \<Rightarrow> hooks \<Rightarrow> event list" where
  "cleanups cfg s h =
     (if activeId cfg s \<noteq> connectorDeps h
      then connectorCleanupEvents (connectorCleanup h) else []) @
     (if listenerDeps cfg s \<noteq> networkDeps h
      then removeEvents ''networkChanged'' (networkCleanup h) else []) @
     (if listenerDeps cfg s \<noteq> accountDeps h
      then removeEvents ''accountsChanged'' (accountCleanup h) else [])"

definition bodies :: "config \<Rightarrow> Web3State \<Rightarrow> hooks \<Rightarrow> event list" where
  "bodies cfg s h =
     (if listenerDeps cfg s \<noteq> networkDeps h
      then installEvents ''networkChanged'' (networkHandler cfg s) else []) @
     (if listenerDeps cfg s \<noteq> accountDeps h
      then installEvents ''accountsChanged'' (accountHandler cfg s) else [])"

definition rerun :: "config \<Rightarrow> Web3State \<Rightarrow> hooks \<Rightarrow> hooks" where
  "rerun cfg s h =
     \<lparr>connectorDeps = activeId cfg s,
      connectorCleanup =
        (if activeId cfg s \<noteq> connectorDeps h then activeId cfg s else connectorCleanup h),
      networkDeps = listenerDeps cfg s,
      networkCleanup =
        (if listenerDeps cfg s \<noteq> networkDeps h then networkHandler cfg s
         else networkCleanup h),
      accountDeps = listenerDeps cfg s,
      accountCleanup =
        (if listenerDeps cfg s \<noteq> accountDeps h then accountHandler cfg s
         else accountCleanup h)\<rparr>"

definition runEffects :: "config \<Rightarrow> Web3State \<Rightarrow> world \<Rightarrow> world" where
  "runEffects cfg s w =
     w\<lparr>hooks := rerun cfg s (hooks w),
       trace := trace w @ cleanups cfg s (hooks w) @ bodies cfg s (hooks w)\<rparr>"

text \<open>
  \<^verbatim>\<open>dispatchWeb3State\<close>: the reducer gives the next snapshot. The dispatch itself runs
  no effect; the component renders with the new snapshot later. A reducer that throws
  leaves the snapshot as it was; the manager itself dispatches the six listed actions
  only.
\<close>

definition dispatchWeb3State :: "config \<Rightarrow> action \<Rightarrow> world \<Rightarrow> world" where
  "dispatchWeb3State cfg a w =
     (case web3StateReducer (web3State w) a of
        Inl e \<Rightarrow> emit [Dispatch a, ReducerThrew e] w
      | Inr s \<Rightarrow> (emit [Dispatch a] w)\<lparr>web3State := s\<rparr>)"

text \<open>
  The hooks and the world after the first render of the hook and its effects, and the
  cleanups of an unmount.
\<close>

definition initialHooks :: hooks where
  "initialHooks =
     \<lparr>connectorDeps = None, connectorCleanup = None,
      networkDeps = (False, None, None), networkCleanup = None,
      accountDeps = (False, None, None), accountCleanup = None\<rparr>"

definition initialWorld :: world where
  "initialWorld = \<lparr>web3State = initialWeb3State, hooks = initialHooks, trace = []\<rparr>"


section \<open>The operations of the manager\<close>

text \<open>A synchronous call returns a value or throws.\<close>

datatype 'a completion = Returns 'a | Throws js_error

text \<open>
  \<^verbatim>\<open>processError(error, connectorName?)\<close>. \<open>Returns None\<close> is \<^verbatim>\<open>return\<close> with no
  value; \<^verbatim>\<open>if (connectorName)\<close> is a truthiness test.
\<close>

definition processError ::
  "config \<Rightarrow> js_error \<Rightarrow> string option \<Rightarrow> world \<Rightarrow> js_error option completion \<times> world" where
  "processError cfg err name w =
     (if code err = Some (WALLETCONNECT_TIMEOUT cfg) then (Returns None, w)
      else if truthy_string name
      then (Throws err, dispatchWeb3State cfg (UPDATE_ERROR_WITH_NAME err (the name)) w)
      else (Throws err, dispatchWeb3State cfg (UPDATE_ERROR err) w))"

text \<open>
  \<^verbatim>\<open>Promise.all\<close> of two promises: both values when both resolve, otherwise the
  rejection that comes first.
\<close>

fun promiseAll2 :: "bool \<Rightarrow> 'a settled \<Rightarrow> 'b settled \<Rightarrow> ('a \<times> 'b) settled" where
  "promiseAll2 sf (Resolves x) (Resolves y) = Resolves (x, y)"
| "promiseAll2 sf (Rejects e) (Resolves y) = Rejects e"
| "promiseAll2 sf (Resolves x) (Rejects e) = Rejects e"
| "promiseAll2 sf (Rejects e1) (Rejects e2) = Rejects (if sf then e2 else e1)"

text \<open>
  Reading a property of \<^verbatim>\<open>undefined\<close>, which is what \<^verbatim>\<open>connectors[connectorName]\<close>
  is for an unknown name, throws a \<^verbatim>\<open>TypeError\<close>.
\<close>

definition typeError :: js_error where
  "typeError = \<lparr>code = None, message = ''TypeError''\<rparr>"

text \<open>The \<^verbatim>\<open>try\<close> block of \<^verbatim>\<open>initializeConnectorValues\<close>.\<close>

definition fetchBoth ::
  "config \<Rightarrow> string \<Rightarrow> Connector \<Rightarrow> Library \<Rightarrow> world \<Rightarrow> unit settled \<times> world" where
  "fetchBoth cfg name connector lib w =
     (let w1 = emit [Call_getNetworkId (cid connector) lib] w;
          w2 = (if activateAccountImmediately connector
                then emit [Call_getAccount (cid connector) lib] w1 else w1);
          accountPromise = (if activateAccountImmediately connector
                            then getAccount connector lib else Resolves AccountNull)
      in case promiseAll2 (accountSettlesFirst connector)
                (getNetworkId connector lib) accountPromise of
           Rejects e \<Rightarrow> (Rejects e, w2)
         | Resolves (nid, acc) \<Rightarrow>
             (Resolves (),
              dispatchWeb3State cfg (UPDATE_CONNECTOR_VALUES name lib nid acc) w2))"

definition tryActivation :: "config \<Rightarrow> string \<Rightarrow> world \<Rightarrow> unit settled \<times> world" where
  "tryActivation cfg name w =
     (case map_of (connectors cfg) name of
        None \<Rightarrow> (Rejects typeError, w)
      | Some connector \<Rightarrow>
          (case onActivation connector of
             Rejects e \<Rightarrow> (Rejects e, emit [Call_onActivation (cid connector)] w)
           | Resolves u \<Rightarrow>
               (case getLibrary connector (libraryName cfg) of
                  Rejects e \<Rightarrow>
                    (Rejects e,
                     emit [Call_onActivation (cid connector),
                           Call_getLibrary (cid connector) (libraryName cfg)] w)
                | Resolves lib \<Rightarrow>
                    fetchBoth cfg name connector lib
                      (emit [Call_onActivation (cid connector),
                             Call_getLibrary (cid connector) (libraryName cfg)] w))))"

text \<open>
  The \<^verbatim>\<open>catch\<close> clause shared by \<^verbatim>\<open>initializeConnectorValues\<close> and
  \<^verbatim>\<open>activateAccount\<close>; they differ in the name they hand to \<^verbatim>\<open>processError\<close>.
\<close>

definition catchError ::
  "config \<Rightarrow> bool \<Rightarrow> string option \<Rightarrow> js_error \<Rightarrow> world \<Rightarrow> unit settled \<times> world" where
  "catchError cfg suppressGlobalError name err w =
     (if suppressGlobalError then (Rejects err, w)
      else (case processError cfg err name w of
              (Throws thrown, w') \<Rightarrow> (Rejects thrown, w')
            | (Returns processedError, w') \<Rightarrow>
                (case processedError of
                   Some pe \<Rightarrow> (Rejects pe, w')
                 | None \<Rightarrow> (Resolves (), w'))))"

definition initializeConnectorValues ::
  "config \<Rightarrow> string \<Rightarrow> bool \<Rightarrow> world \<Rightarrow> unit settled \<times> world" where
  "initializeConnectorValues cfg name suppressGlobalError w =
     (case tryActivation cfg name w of
        (Resolves u, w') \<Rightarrow> (Resolves (), w')
      | (Rejects err, w') \<Rightarrow>
          catchError cfg suppressGlobalError (Some name) err w')"

text \<open>
  A parameter with a default: \<open>None\<close> is the argument left out.
\<close>

definition orDefault :: "bool option \<Rightarrow> bool" where
  "orDefault suppressGlobalError = (case suppressGlobalError of None \<Rightarrow> True | Some b \<Rightarrow> b)"

definition setConnector ::
  "config \<Rightarrow> string \<Rightarrow> bool option \<Rightarrow> world \<Rightarrow> unit settled \<times> world" where
  "setConnector cfg name suppressGlobalError w =
     (if name \<notin> set (map fst (connectors cfg))
      then (Resolves (), emit [ConsoleError] w)
      else if Some name = connectorName (web3State w)
      then (Resolves (), emit [ConsoleError] w)
      else initializeConnectorValues cfg name (orDefault suppressGlobalError) w)"

definition unsetConnector :: "config \<Rightarrow> world \<Rightarrow> world" where
  "unsetConnector cfg w = dispatchWeb3State cfg RESET w"

definition networkChangedListenerHandler :: "config \<Rightarrow> int \<Rightarrow> world \<Rightarrow> world" where
  "networkChangedListenerHandler cfg nid w =
     dispatchWeb3State cfg (UPDATE_NETWORK_ID nid) w"

text \<open>\<^verbatim>\<open>accounts[0]\<close>: reading past the end of an array gives \<^verbatim>\<open>undefined\<close>.\<close>

definition firstAccount :: "string list \<Rightarrow> account_value" where
  "firstAccount accounts = (case accounts of [] \<Rightarrow> AccountUndefined | a # _ \<Rightarrow> Account a)"

definition accountsChangedListenerHandler :: "config \<Rightarrow> string list \<Rightarrow> world \<Rightarrow> world" where
  "accountsChangedListenerHandler cfg accounts w =
     dispatchWeb3State cfg (UPDATE_ACCOUNT (firstAccount accounts)) w"

definition activateAccount :: "config \<Rightarrow> bool option \<Rightarrow> world \<Rightarrow> unit settled \<times> world" where
  "activateAccount cfg suppressGlobalError w =
     (if \<not> web3Initialized (web3State w) then (Resolves (), emit [ConsoleError] w)
      else if account (web3State w) \<noteq> AccountNull then (Resolves (), emit [ConsoleError] w)
      else (case (activeConnector cfg (web3State w), library (web3State w)) of
              (Some connector, Some lib) \<Rightarrow>
                (case getAccount connector lib of
                   Resolves acc \<Rightarrow>
                     (Resolves (),
                      dispatchWeb3State cfg (UPDATE_ACCOUNT acc)
                        (emit [Call_getAccount (cid connector) lib] w))
                 | Rejects err \<Rightarrow>
                     catchError cfg (orDefault suppressGlobalError) None err
                       (emit [Call_getAccount (cid connector) lib] w))
            | _ \<Rightarrow> (Resolves (), emit [ConsoleError] w)))"

section \<open>A connector that fails\<close>

text \<open>
  What it means for a connector, taken by itself, to fail the activation sequence with
  the error \<open>e\<close>: of the promises the sequence awaits in turn (the activation hook, the
  library, and then the network id together with the account if the connector wants it
  fetched at once), the first that rejects, rejects with \<open>e\<close>. Where both fetches
  reject, \<open>e\<close> is the error of the one that rejects first.
\<close>

definition fetchRejects :: "Connector \<Rightarrow> Library \<Rightarrow> js_error \<Rightarrow> bool" where
  "fetchRejects c lib e \<longleftrightarrow>
     (case getNetworkId c lib of
        Rejects e1 \<Rightarrow>
          (if activateAccountImmediately c
           then (case getAccount c lib of
                   Rejects e2 \<Rightarrow> e = (if accountSettlesFirst c then e2 else e1)
                 | Resolves acc \<Rightarrow> e = e1)
           else e = e1)
      | Resolves nid \<Rightarrow> activateAccountImmediately c \<and> getAccount c lib = Rejects e)"

definition activationRejects :: "config \<Rightarrow> Connector \<Rightarrow> js_error \<Rightarrow> bool" where
  "activationRejects cfg c e \<longleftrightarrow>
     (case onActivation c of
        Rejects e0 \<Rightarrow> e = e0
      | Resolves u \<Rightarrow>
          (case getLibrary c (libraryName cfg) of
             Rejects e1 \<Rightarrow> e = e1
           | Resolves lib \<Rightarrow> fetchRejects c lib e))"

section \<open>The manager over time\<close>

text \<open>
  The operations above run one call from its start to its end. In the browser a call
  stops at every \<^verbatim>\<open>await\<close>, other calls and listener events run in between, and React
  renders the hook and runs its effects at times of its own. This section takes the
  same code apart at those points.

  A task is a call that is waiting for a promise, with the variables it has closed
  over: the connector name, \<open>suppressGlobalError\<close>, the connector and the library.
\<close>

datatype task =
    AwaitActivation string bool Connector
  | AwaitLibrary string bool Connector
  | AwaitFetch string bool Connector Library
  | AwaitAccount bool Connector Library

text \<open>
  \<open>now\<close> is the world, whose \<open>web3State\<close> is the snapshot the reducer has produced
  last. \<open>rendered\<close> is the snapshot of the last render, which is what the functions
  handed out by that render read; \<open>older\<close> are the snapshots of the renders before,
  latest first, which functions a caller has kept still read. \<open>effected\<close> is the
  snapshot of the render whose effects ran last.
\<close>

record manager =
  now :: world
  rendered :: Web3State
  older :: "Web3State list"
  effected :: Web3State
  tasks :: "task list"


text \<open>The snapshot read by a function of the render \<open>k\<close> renders ago.\<close>

definition closureSnapshot :: "manager \<Rightarrow> nat \<Rightarrow> Web3State" where
  "closureSnapshot m k = (case drop k (rendered m # older m) of [] \<Rightarrow> rendered m | s # _ \<Rightarrow> s)"

text \<open>
  \<open>setConnector\<close> and \<open>activateAccount\<close> up to their first \<^verbatim>\<open>await\<close>, reading the
  snapshot \<open>s\<close>: the guards, and then the first call into the connector.
\<close>

definition startSetConnector ::
  "config \<Rightarrow> string \<Rightarrow> bool option \<Rightarrow> Web3State \<Rightarrow> world \<Rightarrow> world \<times> task option" where
  "startSetConnector cfg name sg s w =
     (if name \<notin> set (map fst (connectors cfg)) then (emit [ConsoleError] w, None)
      else if Some name = connectorName s then (emit [ConsoleError] w, None)
      else (case map_of (connectors cfg) name of
              None \<Rightarrow> (snd (catchError cfg (orDefault sg) (Some name) typeError w), None)
            | Some connector \<Rightarrow>
                (emit [Call_onActivation (cid connector)] w,
                 Some (AwaitActivation name (orDefault sg) connector))))"

definition startActivateAccount ::
  "config \<Rightarrow> bool option \<Rightarrow> Web3State \<Rightarrow> world \<Rightarrow> world \<times> task option" where
  "startActivateAccount cfg sg s w =
     (if \<not> web3Initialized s then (emit [ConsoleError] w, None)
      else if account s \<noteq> AccountNull then (emit [ConsoleError] w, None)
      else (case (activeConnector cfg s, library s) of
              (Some connector, Some lib) \<Rightarrow>
                (emit [Call_getAccount (cid connector) lib] w,
                 Some (AwaitAccount (orDefault sg) connector lib))
            | _ \<Rightarrow> (emit [ConsoleError] w, None)))"

text \<open>The calls made before \<^verbatim>\<open>Promise.all\<close> is awaited.\<close>

definition fetchCalls :: "Connector \<Rightarrow> Library \<Rightarrow> event list" where
  "fetchCalls c lib =
     Call_getNetworkId (cid c) lib #
     (if activateAccountImmediately c then [Call_getAccount (cid c) lib] else [])"

text \<open>
  The promise a task waits for settles: the call goes on to its next \<^verbatim>\<open>await\<close>, or to
  its end through the dispatch or the \<^verbatim>\<open>catch\<close> clause.
\<close>

fun settleTask :: "config \<Rightarrow> task \<Rightarrow> world \<Rightarrow> world \<times> task option" where
  "settleTask cfg (AwaitActivation name sg c) w =
     (case onActivation c of
        Rejects e \<Rightarrow> (snd (catchError cfg sg (Some name) e w), None)
      | Resolves u \<Rightarrow>
          (emit [Call_getLibrary (cid c) (libraryName cfg)] w, Some (AwaitLibrary name sg c)))"
| "settleTask cfg (AwaitLibrary name sg c) w =
     (case getLibrary c (libraryName cfg) of
        Rejects e \<Rightarrow> (snd (catchError cfg sg (Some name) e w), None)
      | Resolves lib \<Rightarrow> (emit (fetchCalls c lib) w, Some (AwaitFetch name sg c lib)))"
| "settleTask cfg (AwaitFetch name sg c lib) w =
     (case promiseAll2 (accountSettlesFirst c) (getNetworkId c lib)
             (if activateAccountImmediately c then getAccount c lib
              else Resolves AccountNull) of
        Rejects e \<Rightarrow> (snd (catchError cfg sg (Some name) e w), None)
      | Resolves (nid, acc) \<Rightarrow>
          (dispatchWeb3State cfg (UPDATE_CONNECTOR_VALUES name lib nid acc) w, None))"
| "settleTask cfg (AwaitAccount sg c lib) w =
     (case getAccount c lib of
        Rejects e \<Rightarrow> (snd (catchError cfg sg None e w), None)
      | Resolves acc \<Rightarrow> (dispatchWeb3State cfg (UPDATE_ACCOUNT acc) w, None))"

text \<open>
  React runs the effects of the last render, if they have not run yet, before it
  renders again, and before it unmounts the component.
\<close>

definition flushEffects :: "config \<Rightarrow> manager \<Rightarrow> manager" where
  "flushEffects cfg m =
     m\<lparr>now := runEffects cfg (rendered m) (now m), effected := rendered m\<rparr>"

definition renderHook :: "config \<Rightarrow> manager \<Rightarrow> manager" where
  "renderHook cfg m =
     (flushEffects cfg m)\<lparr>rendered := web3State (now m), older := rendered m # older m\<rparr>"


text \<open>
  Everything that can happen next: a call of an exported function (of the render \<open>k\<close>
  renders ago), a listener event, the promise of the task at a position settling, a
  render, the effects of the last render. A schedule is a list of these, in any order.
\<close>

datatype label =
    CallSetConnector string "bool option" nat
  | CallUnsetConnector
  | CallActivateAccount "bool option" nat
  | FireNetworkChanged int
  | FireAccountsChanged "string list"
  | Settle nat
  | Render
  | RunEffects

definition spawned :: "task option \<Rightarrow> task list" where
  "spawned t = (case t of None \<Rightarrow> [] | Some x \<Rightarrow> [x])"

fun act :: "config \<Rightarrow> label \<Rightarrow> manager \<Rightarrow> manager" where
  "act cfg (CallSetConnector name sg k) m =
     m\<lparr>now := fst (startSetConnector cfg name sg (closureSnapshot m k) (now m)),
       tasks := tasks m @
                spawned (snd (startSetConnector cfg name sg (closureSnapshot m k) (now m)))\<rparr>"
| "act cfg CallUnsetConnector m = m\<lparr>now := unsetConnector cfg (now m)\<rparr>"
| "act cfg (CallActivateAccount sg k) m =
     m\<lparr>now := fst (startActivateAccount cfg sg (closureSnapshot m k) (now m)),
       tasks := tasks m @
                spawned (snd (startActivateAccount cfg sg (closureSnapshot m k) (now m)))\<rparr>"
| "act cfg (FireNetworkChanged nid) m =
     m\<lparr>now := networkChangedListenerHandler cfg nid (now m)\<rparr>"
| "act cfg (FireAccountsChanged accounts) m =
     m\<lparr>now := accountsChangedListenerHandler cfg accounts (now m)\<rparr>"
| "act cfg (Settle i) m =
     (if i < length (tasks m)
      then m\<lparr>now := fst (settleTask cfg (tasks m ! i) (now m)),
             tasks := take i (tasks m) @
                      spawned (snd (settleTask cfg (tasks m ! i) (now m))) @
                      drop (Suc i) (tasks m)\<rparr>
      else m)"
| "act cfg Render m = renderHook cfg m"
| "act cfg RunEffects m = flushEffects cfg m"

fun schedule :: "config \<Rightarrow> label list \<Rightarrow> manager \<Rightarrow> manager" where
  "schedule cfg [] m = m"
| "schedule cfg (l # ls) m = schedule cfg ls (act cfg l m)"

subsection \<open>Reading a trace\<close>



fun quiet :: "event \<Rightarrow> bool" where
  "quiet ConsoleError = True"
| "quiet (Call_onActivation c) = True"
| "quiet (Call_getLibrary c n) = True"
| "quiet (Call_getNetworkId c l) = True"
| "quiet (Call_getAccount c l) = True"
| "quiet _ = False"




text \<open>
  Reading a trace from the left with the handlers that are installed: the connector of
  the \<^verbatim>\<open>networkChanged\<close> handler and that of the \<^verbatim>\<open>accountsChanged\<close> handler. The
  reading fails where a handler is installed for an event that has one, or beside a
  handler of another connector.
\<close>

fun listenStep ::
  "nat option \<times> nat option \<Rightarrow> event \<Rightarrow> (nat option \<times> nat option) option" where
  "listenStep (n, a) (EthereumOn ev c) =
     (if ev = ''networkChanged''
      then (if n = None \<and> (a = None \<or> a = Some c) then Some (Some c, a) else None)
      else if ev = ''accountsChanged''
      then (if a = None \<and> (n = None \<or> n = Some c) then Some (n, Some c) else None)
      else Some (n, a))"
| "listenStep (n, a) (EthereumRemoveListener ev c) =
     (if ev = ''networkChanged'' \<and> n = Some c then Some (None, a)
      else if ev = ''accountsChanged'' \<and> a = Some c then Some (n, None)
      else Some (n, a))"
| "listenStep st e = Some st"

fun handlersAfter ::
  "nat option \<times> nat option \<Rightarrow> event list \<Rightarrow> (nat option \<times> nat option) option" where
  "handlersAfter st [] = Some st"
| "handlersAfter st (e # es) =
     (case listenStep st e of None \<Rightarrow> None | Some st' \<Rightarrow> handlersAfter st' es)"


subsection \<open>Invariants of the schedules\<close>

text \<open>
  The activation hook of the connector a name stands for has been called; and the same
  for the connector a snapshot makes active, for the name an action commits, and for a
  task of \<open>setConnector\<close>.
\<close>

definition named :: "config \<Rightarrow> event list \<Rightarrow> string \<Rightarrow> bool" where
  "named cfg tr n \<longleftrightarrow>
     (case map_of (connectors cfg) n of
        None \<Rightarrow> True
      | Some c \<Rightarrow> n = [] \<or> Call_onActivation (cid c) \<in> set tr)"


fun benign :: "config \<Rightarrow> event list \<Rightarrow> action \<Rightarrow> bool" where
  "benign cfg tr (UPDATE_CONNECTOR_VALUES n lib nid acc) = named cfg tr n"
| "benign cfg tr (UPDATE_ERROR_WITH_NAME e n) = named cfg tr n"
| "benign cfg tr a = True"


text \<open>
  The shape of every step that is not a render: some quiet events, and then at most
  one dispatch, of an action whose connector has been activated.
\<close>

inductive moves :: "config \<Rightarrow> world \<Rightarrow> world \<Rightarrow> bool" for cfg w where
  silent: "list_all quiet pre \<Longrightarrow> moves cfg w (emit pre w)"
| commits:
    "list_all quiet pre \<Longrightarrow> benign cfg (trace w @ pre) a \<Longrightarrow>
     moves cfg w (dispatchWeb3State cfg a (emit pre w))"



section \<open>Sample connectors\<close>

text \<open>
  A connector with identity \<open>i\<close> whose activation hook settles as \<open>r\<close> and whose other
  promises resolve: network 1, account \<^verbatim>\<open>0xabc\<close>.
\<close>

definition sampleConnector :: "nat \<Rightarrow> unit settled \<Rightarrow> bool \<Rightarrow> Connector" where
  "sampleConnector i r immediately =
     \<lparr>cid = i, onActivation = r,
      getLibrary = (\<lambda>_. Resolves (LibraryHandle i)),
      getNetworkId = (\<lambda>_. Resolves 1),
      getAccount = (\<lambda>_. Resolves (Account ''0xabc'')),
      activateAccountImmediately = immediately,
      listenForNetworkChanges = True,
      listenForAccountChanges = True,
      accountSettlesFirst = False\<rparr>"

definition sampleConfig :: "(string \<times> Connector) list \<Rightarrow> config" where
  "sampleConfig cs =
     \<lparr>connectors = cs, libraryName = ''ethers.js'',
      WALLETCONNECT_TIMEOUT = CodeString ''WALLETCONNECT_TIMEOUT'',
      ethereumListenable = True\<rparr>"

definition timeoutError :: js_error where
  "timeoutError = \<lparr>code = Some (CodeString ''WALLETCONNECT_TIMEOUT''), message = ''timeout''\<rparr>"

definition deniedError :: js_error where
  "deniedError = \<lparr>code = Some (CodeNumber 4001), message = ''denied''\<rparr>"

definition rejectingConfig :: "js_error \<Rightarrow> config" where
  "rejectingConfig e = sampleConfig [(''injected'', sampleConnector 1 (Rejects e) True)]"

text \<open>The same registry with the empty string as its only key.\<close>

definition emptyNameConfig :: config where
  "emptyNameConfig = sampleConfig [([], sampleConnector 1 (Rejects deniedError) True)]"

text \<open>A connector that does not want its account fetched during activation.\<close>

definition lazyConfig :: config where
  "lazyConfig = sampleConfig [(''injected'', sampleConnector 1 (Resolves ()) False)]"


text \<open>A snapshot with every field filled in, on network 0.\<close>

definition zeroNetworkState :: Web3State where
  "zeroNetworkState =
     \<lparr>connectorName = Some ''injected'', library = Some (LibraryHandle 1),
      networkId = Some 0, account = AccountNull, error = None\<rparr>"

text \<open>A connector whose account fetch rejects, and one whose library fetch rejects.\<close>

definition accountRejectingConfig :: "js_error \<Rightarrow> config" where
  "accountRejectingConfig e =
     sampleConfig [(''injected'',
       (sampleConnector 1 (Resolves ()) True)\<lparr>getAccount := (\<lambda>_. Rejects e)\<rparr>)]"

definition libraryRejectingConfig :: "js_error \<Rightarrow> config" where
  "libraryRejectingConfig e =
     sampleConfig [(''injected'',
       (sampleConnector 1 (Resolves ()) True)\<lparr>getLibrary := (\<lambda>_. Rejects e)\<rparr>)]"



section \<open>Basic facts\<close>

lemma emit_simps [simp]:
  "web3State (emit es w) = web3State w"
  "hooks (emit es w) = hooks w"
  "trace (emit es w) = trace w @ es"
  by (simp_all add: emit_def)

lemma runEffects_simps [simp]:
  "web3State (runEffects cfg s w) = web3State w"
  "trace (runEffects cfg s w) = trace w @ cleanups cfg s (hooks w) @ bodies cfg s (hooks w)"
  "hooks (runEffects cfg s w) = rerun cfg s (hooks w)"
  by (simp_all add: runEffects_def)

lemma dispatch_state:
  "web3State (dispatchWeb3State cfg a w) =
     (case web3StateReducer (web3State w) a of Inl e \<Rightarrow> web3State w | Inr s \<Rightarrow> s)"
  by (simp add: dispatchWeb3State_def split: sum.split)

lemma dispatch_trace:
  "trace (dispatchWeb3State cfg a w) =
     trace w @
     (case web3StateReducer (web3State w) a of
        Inl e \<Rightarrow> [Dispatch a, ReducerThrew e]
      | Inr s \<Rightarrow> [Dispatch a])"
  by (simp add: dispatchWeb3State_def split: sum.split)

lemma dispatch_hooks [simp]: "hooks (dispatchWeb3State cfg a w) = hooks w"
  by (simp add: dispatchWeb3State_def split: sum.split)

text \<open>A failed \<^verbatim>\<open>try\<close> block has dispatched nothing.\<close>

lemma fetchBoth_rejects:
  "fst (fetchBoth cfg name c lib w) = Rejects e \<Longrightarrow>
   web3State (snd (fetchBoth cfg name c lib w)) = web3State w \<and>
   hooks (snd (fetchBoth cfg name c lib w)) = hooks w"
  by (auto simp: fetchBoth_def Let_def split: settled.splits prod.splits if_splits)

lemma tryActivation_rejects:
  "fst (tryActivation cfg name w) = Rejects e \<Longrightarrow>
   web3State (snd (tryActivation cfg name w)) = web3State w \<and>
   hooks (snd (tryActivation cfg name w)) = hooks w"
  by (auto simp: tryActivation_def dest: fetchBoth_rejects split: option.splits settled.splits)

text \<open>
  A connector that fails by itself makes the \<^verbatim>\<open>try\<close> block fail, with the same error.
\<close>

lemma fetchBoth_fails:
  assumes "fetchRejects c lib e"
  shows "fst (fetchBoth cfg name c lib w) = Rejects e"
proof (cases "getNetworkId c lib")
  case n: (Rejects e1)
  show ?thesis
  proof (cases "activateAccountImmediately c")
    case True
    with assms n show ?thesis
      by (cases "getAccount c lib") (simp_all add: fetchRejects_def fetchBoth_def)
  next
    case False
    with assms n show ?thesis by (simp add: fetchRejects_def fetchBoth_def)
  qed
next
  case (Resolves nid)
  with assms show ?thesis by (simp add: fetchRejects_def fetchBoth_def)
qed

lemma tryActivation_fails:
  assumes "map_of (connectors cfg) name = Some c" and "activationRejects cfg c e"
  shows "fst (tryActivation cfg name w) = Rejects e"
proof (cases "onActivation c")
  case (Rejects e0)
  with assms show ?thesis by (simp add: activationRejects_def tryActivation_def)
next
  case (Resolves u)
  show ?thesis
  proof (cases "getLibrary c (libraryName cfg)")
    case (Rejects e1)
    with assms Resolves show ?thesis by (simp add: activationRejects_def tryActivation_def)
  next
    case lib: (Resolves lib)
    with assms Resolves have "fetchRejects c lib e" by (simp add: activationRejects_def)
    then show ?thesis using assms(1) Resolves lib
      by (simp add: tryActivation_def fetchBoth_fails)
  qed
qed

lemma registered:
  "map_of (connectors cfg) name = Some c \<Longrightarrow> name \<in> set (map fst (connectors cfg))"
  by (metis map_of_eq_None_iff option.distinct(1) set_map)

lemma setConnector_attempts:
  assumes "name \<in> set (map fst (connectors cfg))"
    and "connectorName (web3State w) \<noteq> Some name"
  shows "setConnector cfg name sg w = initializeConnectorValues cfg name (orDefault sg) w"
  using assms by (auto simp: setConnector_def)

section \<open>The derived flag\<close>

text \<open>
  C4, as the code has it. \<open>web3Initialized\<close> holds exactly when \<open>connectorName\<close> is a
  non-empty string, \<open>library\<close> is present, \<open>networkId\<close> is present and not 0,
  \<open>account\<close> is not \<^verbatim>\<open>undefined\<close> (\<^verbatim>\<open>null\<close> allowed) and \<open>error\<close> is \<^verbatim>\<open>null\<close>; in
  particular it is false whenever \<open>error\<close> is set. The fields are tested for truthiness,
  not for presence.
\<close>

theorem web3Initialized_truthy:
  "(web3Initialized s \<longleftrightarrow>
      (\<exists>n. connectorName s = Some n \<and> n \<noteq> []) \<and>
      library s \<noteq> None \<and>
      (\<exists>k. networkId s = Some k \<and> k \<noteq> 0) \<and>
      account s \<noteq> AccountUndefined \<and>
      error s = None) \<and>
   (error s \<noteq> None \<longrightarrow> \<not> web3Initialized s)"
  by (auto simp: web3Initialized_def truthy_string_def truthy_number_def split: option.splits)

theorem web3Initialized_truthy_witness:
  "error (initialWeb3State\<lparr>error := Some deniedError\<rparr>) \<noteq> None \<and>
   \<not> web3Initialized (initialWeb3State\<lparr>error := Some deniedError\<rparr>)"
  using web3Initialized_truthy [of "initialWeb3State\<lparr>error := Some deniedError\<rparr>"]
  by simp

text \<open>
  C4 as stated fails on network 0: every field of the snapshot is present and there is
  no error, yet the flag is false.
\<close>

theorem web3Initialized_network_zero:
  "connectorName zeroNetworkState \<noteq> None \<and>
   library zeroNetworkState \<noteq> None \<and>
   networkId zeroNetworkState \<noteq> None \<and>
   account zeroNetworkState \<noteq> AccountUndefined \<and>
   error zeroNetworkState = None \<and>
   \<not> web3Initialized zeroNetworkState"
  by (simp add: zeroNetworkState_def web3Initialized_def truthy_number_def)

section \<open>Error processing\<close>

text \<open>
  C10. \<open>processError\<close> never returns an error: on the timeout code it returns
  \<^verbatim>\<open>undefined\<close> and leaves the world alone; on any other error it dispatches the error
  and throws it. So the \<open>Some pe\<close> branch of \<open>catchError\<close>, which is
  \<^verbatim>\<open>if (processedError) throw processedError\<close> in both callers, is never taken, and
  the callers behave as the last equation says.
\<close>

theorem processError_never_returns_error:
  "(\<forall>pe w'. processError cfg err name w \<noteq> (Returns (Some pe), w')) \<and>
   processError cfg err name w =
     (if code err = Some (WALLETCONNECT_TIMEOUT cfg) then (Returns None, w)
      else (Throws err,
            dispatchWeb3State cfg
              (if truthy_string name then UPDATE_ERROR_WITH_NAME err (the name)
               else UPDATE_ERROR err) w)) \<and>
   catchError cfg False name err w =
     (if code err = Some (WALLETCONNECT_TIMEOUT cfg) then (Resolves (), w)
      else (Rejects err,
            dispatchWeb3State cfg
              (if truthy_string name then UPDATE_ERROR_WITH_NAME err (the name)
               else UPDATE_ERROR err) w))"
  by (simp add: processError_def catchError_def)

section \<open>setConnector\<close>

text \<open>
  C5. For a name that is not a key of the registry, or that is the snapshot's
  \<open>connectorName\<close>, \<open>setConnector\<close> resolves and changes neither the snapshot nor the
  hooks; all it does is log to the console.
\<close>

theorem setConnector_guards:
  assumes "name \<notin> set (map fst (connectors cfg)) \<or> connectorName (web3State w) = Some name"
  shows "fst (setConnector cfg name sg w) = Resolves () \<and>
         web3State (snd (setConnector cfg name sg w)) = web3State w \<and>
         hooks (snd (setConnector cfg name sg w)) = hooks w \<and>
         trace (snd (setConnector cfg name sg w)) = trace w @ [ConsoleError]"
  using assms by (auto simp: setConnector_def)

theorem setConnector_guards_witness:
  "''nope'' \<notin> set (map fst (connectors lazyConfig)) \<and>
   fst (setConnector lazyConfig ''nope'' None initialWorld) = Resolves () \<and>
   web3State (snd (setConnector lazyConfig ''nope'' None initialWorld)) =
     web3State initialWorld"
  using setConnector_guards [of "''nope''" lazyConfig initialWorld None]
  by (simp add: lazyConfig_def sampleConfig_def)

text \<open>
  C3. Take a registered connector, other than the current one, that fails at any step
  of the activation sequence (the hook, the library fetch, the network id or the account
  fetch) with an error. With \<open>suppressGlobalError\<close> true or left out, \<open>setConnector\<close>
  rejects the promise with that very error, and the snapshot stays as it was.
\<close>

theorem setConnector_suppressed_rejects:
  assumes "map_of (connectors cfg) name = Some c"
    and "connectorName (web3State w) \<noteq> Some name"
    and "activationRejects cfg c e"
    and "sg = None \<or> sg = Some True"
  shows "fst (setConnector cfg name sg w) = Rejects e \<and>
         web3State (snd (setConnector cfg name sg w)) = web3State w"
proof -
  from assms(4) have d: "orDefault sg" by (auto simp: orDefault_def)
  have f: "fst (tryActivation cfg name w) = Rejects e"
    using assms(1,3) by (rule tryActivation_fails)
  obtain r w' where t: "tryActivation cfg name w = (r, w')"
    by (cases "tryActivation cfg name w")
  with f have r: "r = Rejects e" by simp
  from tryActivation_rejects [OF f] t have s: "web3State w' = web3State w" by simp
  have "setConnector cfg name sg w = initializeConnectorValues cfg name (orDefault sg) w"
    using registered [OF assms(1)] assms(2) by (rule setConnector_attempts)
  also have "\<dots> = (Rejects e, w')"
    using t r d by (simp add: initializeConnectorValues_def catchError_def)
  finally show ?thesis using s by simp
qed

theorem setConnector_suppressed_rejects_witness:
  "(activationRejects (rejectingConfig deniedError)
      (sampleConnector 1 (Rejects deniedError) True) deniedError \<and>
    fst (setConnector (rejectingConfig deniedError) ''injected'' None initialWorld) =
      Rejects deniedError \<and>
    web3State (snd (setConnector (rejectingConfig deniedError) ''injected'' None initialWorld)) =
      initialWeb3State) \<and>
   (activationRejects (accountRejectingConfig timeoutError)
      ((sampleConnector 1 (Resolves ()) True)\<lparr>getAccount := (\<lambda>_. Rejects timeoutError)\<rparr>)
      timeoutError \<and>
    fst (setConnector (accountRejectingConfig timeoutError) ''injected'' (Some True)
           initialWorld) = Rejects timeoutError \<and>
    web3State (snd (setConnector (accountRejectingConfig timeoutError) ''injected'' (Some True)
                      initialWorld)) = initialWeb3State)"
  using setConnector_suppressed_rejects
    [of "rejectingConfig deniedError" "''injected''"
        "sampleConnector 1 (Rejects deniedError) True" initialWorld deniedError None]
    setConnector_suppressed_rejects
    [of "accountRejectingConfig timeoutError" "''injected''"
        "(sampleConnector 1 (Resolves ()) True)\<lparr>getAccount := (\<lambda>_. Rejects timeoutError)\<rparr>"
        initialWorld timeoutError "Some True"]
  by (simp add: rejectingConfig_def accountRejectingConfig_def sampleConfig_def
      sampleConnector_def initialWorld_def initialWeb3State_def activationRejects_def
      fetchRejects_def)

text \<open>
  C2. Take a registered connector, other than the current one, that fails at any step
  of the activation sequence with an error that has the timeout code. With
  \<open>suppressGlobalError\<close> false, \<open>setConnector\<close> resolves the promise and leaves the
  snapshot unchanged; so \<open>error\<close> stays what it was, \<^verbatim>\<open>null\<close> if it was \<^verbatim>\<open>null\<close>.
\<close>

theorem setConnector_timeout_swallowed:
  assumes "map_of (connectors cfg) name = Some c"
    and "connectorName (web3State w) \<noteq> Some name"
    and "activationRejects cfg c e"
    and "code e = Some (WALLETCONNECT_TIMEOUT cfg)"
  shows "fst (setConnector cfg name (Some False) w) = Resolves () \<and>
         web3State (snd (setConnector cfg name (Some False) w)) = web3State w \<and>
         error (web3State (snd (setConnector cfg name (Some False) w))) = error (web3State w)"
proof -
  have f: "fst (tryActivation cfg name w) = Rejects e"
    using assms(1,3) by (rule tryActivation_fails)
  obtain r w' where t: "tryActivation cfg name w = (r, w')"
    by (cases "tryActivation cfg name w")
  with f have r: "r = Rejects e" by simp
  from tryActivation_rejects [OF f] t have s: "web3State w' = web3State w" by simp
  have "setConnector cfg name (Some False) w =
          initializeConnectorValues cfg name (orDefault (Some False)) w"
    using registered [OF assms(1)] assms(2) by (rule setConnector_attempts)
  also have "\<dots> = (Resolves (), w')"
    using t r assms(4)
    by (simp add: initializeConnectorValues_def catchError_def processError_def orDefault_def)
  finally show ?thesis using s by simp
qed

theorem setConnector_timeout_swallowed_witness:
  "(activationRejects (rejectingConfig timeoutError)
      (sampleConnector 1 (Rejects timeoutError) True) timeoutError \<and>
    code timeoutError = Some (WALLETCONNECT_TIMEOUT (rejectingConfig timeoutError)) \<and>
    fst (setConnector (rejectingConfig timeoutError) ''injected'' (Some False) initialWorld) =
      Resolves () \<and>
    web3State
      (snd (setConnector (rejectingConfig timeoutError) ''injected'' (Some False) initialWorld)) =
      initialWeb3State) \<and>
   (activationRejects (libraryRejectingConfig timeoutError)
      ((sampleConnector 1 (Resolves ()) True)\<lparr>getLibrary := (\<lambda>_. Rejects timeoutError)\<rparr>)
      timeoutError \<and>
    fst (setConnector (libraryRejectingConfig timeoutError) ''injected'' (Some False)
           initialWorld) = Resolves () \<and>
    error (web3State
      (snd (setConnector (libraryRejectingConfig timeoutError) ''injected'' (Some False)
              initialWorld))) = None)"
  using setConnector_timeout_swallowed
    [of "rejectingConfig timeoutError" "''injected''"
        "sampleConnector 1 (Rejects timeoutError) True" initialWorld timeoutError]
    setConnector_timeout_swallowed
    [of "libraryRejectingConfig timeoutError" "''injected''"
        "(sampleConnector 1 (Resolves ()) True)\<lparr>getLibrary := (\<lambda>_. Rejects timeoutError)\<rparr>"
        initialWorld timeoutError]
  by (simp add: rejectingConfig_def libraryRejectingConfig_def sampleConfig_def
      sampleConnector_def initialWorld_def initialWeb3State_def activationRejects_def
      timeoutError_def)

text \<open>
  C1, as the code has it. Take a connector registered under a non-empty name, other
  than the current one, that fails at any step of the activation sequence with an error
  whose code is not the timeout code. With \<open>suppressGlobalError\<close> false,
  \<open>setConnector\<close> rejects the promise with that error, and afterwards the snapshot has
  \<open>error\<close> equal to that error and \<open>connectorName\<close> equal to the attempted name; the
  other three fields are as before.
\<close>

theorem setConnector_unsuppressed_commits:
  assumes "map_of (connectors cfg) name = Some c"
    and "name \<noteq> []"
    and "connectorName (web3State w) \<noteq> Some name"
    and "activationRejects cfg c e"
    and "code e \<noteq> Some (WALLETCONNECT_TIMEOUT cfg)"
  shows "fst (setConnector cfg name (Some False) w) = Rejects e \<and>
         web3State (snd (setConnector cfg name (Some False) w)) =
           (web3State w)\<lparr>error := Some e, connectorName := Some name\<rparr>"
proof -
  have f: "fst (tryActivation cfg name w) = Rejects e"
    using assms(1,4) by (rule tryActivation_fails)
  obtain r w' where t: "tryActivation cfg name w = (r, w')"
    by (cases "tryActivation cfg name w")
  with f have r: "r = Rejects e" by simp
  from tryActivation_rejects [OF f] t have s: "web3State w' = web3State w" by simp
  have "setConnector cfg name (Some False) w =
          initializeConnectorValues cfg name (orDefault (Some False)) w"
    using registered [OF assms(1)] assms(3) by (rule setConnector_attempts)
  also have "\<dots> = (Rejects e, dispatchWeb3State cfg (UPDATE_ERROR_WITH_NAME e name) w')"
    using t r assms(2,5)
    by (simp add: initializeConnectorValues_def catchError_def processError_def orDefault_def
        truthy_string_def)
  finally show ?thesis using s by (simp add: dispatch_state)
qed

theorem setConnector_unsuppressed_commits_witness:
  "(activationRejects (rejectingConfig deniedError)
      (sampleConnector 1 (Rejects deniedError) True) deniedError \<and>
    code deniedError \<noteq> Some (WALLETCONNECT_TIMEOUT (rejectingConfig deniedError)) \<and>
    fst (setConnector (rejectingConfig deniedError) ''injected'' (Some False) initialWorld) =
      Rejects deniedError \<and>
    web3State
      (snd (setConnector (rejectingConfig deniedError) ''injected'' (Some False) initialWorld)) =
      initialWeb3State\<lparr>error := Some deniedError, connectorName := Some ''injected''\<rparr>) \<and>
   (activationRejects (accountRejectingConfig deniedError)
      ((sampleConnector 1 (Resolves ()) True)\<lparr>getAccount := (\<lambda>_. Rejects deniedError)\<rparr>)
      deniedError \<and>
    fst (setConnector (accountRejectingConfig deniedError) ''injected'' (Some False)
           initialWorld) = Rejects deniedError \<and>
    web3State
      (snd (setConnector (accountRejectingConfig deniedError) ''injected'' (Some False)
              initialWorld)) =
      initialWeb3State\<lparr>error := Some deniedError, connectorName := Some ''injected''\<rparr>)"
  using setConnector_unsuppressed_commits
    [of "rejectingConfig deniedError" "''injected''"
        "sampleConnector 1 (Rejects deniedError) True" initialWorld deniedError]
    setConnector_unsuppressed_commits
    [of "accountRejectingConfig deniedError" "''injected''"
        "(sampleConnector 1 (Resolves ()) True)\<lparr>getAccount := (\<lambda>_. Rejects deniedError)\<rparr>"
        initialWorld deniedError]
  by (simp add: rejectingConfig_def accountRejectingConfig_def sampleConfig_def
      sampleConnector_def initialWorld_def initialWeb3State_def activationRejects_def
      fetchRejects_def deniedError_def)

text \<open>
  C1 as stated fails for a connector registered under the empty name: the promise
  rejects with the error and the error is committed, but by \<^verbatim>\<open>UPDATE_ERROR\<close>, so
  \<open>connectorName\<close> is not the attempted name.
\<close>

theorem setConnector_unsuppressed_empty_name:
  "[] \<in> set (map fst (connectors emptyNameConfig)) \<and>
   onActivation (the (map_of (connectors emptyNameConfig) [])) = Rejects deniedError \<and>
   code deniedError \<noteq> Some (WALLETCONNECT_TIMEOUT emptyNameConfig) \<and>
   fst (setConnector emptyNameConfig [] (Some False) initialWorld) = Rejects deniedError \<and>
   error (web3State (snd (setConnector emptyNameConfig [] (Some False) initialWorld))) =
     Some deniedError \<and>
   connectorName (web3State (snd (setConnector emptyNameConfig [] (Some False) initialWorld))) \<noteq>
     Some []"
  by (simp add: emptyNameConfig_def sampleConfig_def sampleConnector_def initialWorld_def
      deniedError_def initialWeb3State_def tryActivation_def setConnector_def
      initializeConnectorValues_def catchError_def processError_def orDefault_def
      truthy_string_def dispatch_state)

text \<open>
  C6. For a registered connector other than the current one with
  \<open>activateAccountImmediately\<close> false whose activation hook, library fetch and network
  id fetch succeed, \<open>setConnector\<close> resolves and commits a snapshot whose account is
  \<^verbatim>\<open>null\<close>, and no event of the activation is a call of \<open>getAccount\<close>.
\<close>

theorem setConnector_lazy_account:
  assumes "map_of (connectors cfg) name = Some c"
    and "connectorName (web3State w) \<noteq> Some name"
    and "\<not> activateAccountImmediately c"
    and "onActivation c = Resolves ()"
    and "getLibrary c (libraryName cfg) = Resolves lib"
    and "getNetworkId c lib = Resolves nid"
  shows "fst (setConnector cfg name sg w) = Resolves () \<and>
         web3State (snd (setConnector cfg name sg w)) =
           \<lparr>connectorName = Some name, library = Some lib, networkId = Some nid,
            account = AccountNull, error = None\<rparr> \<and>
         (\<exists>es. trace (snd (setConnector cfg name sg w)) = trace w @ es \<and>
               (\<forall>i l. Call_getAccount i l \<notin> set es))"
proof -
  let ?a = "UPDATE_CONNECTOR_VALUES name lib nid AccountNull"
  let ?w1 = "emit [Call_getNetworkId (cid c) lib]
               (emit [Call_onActivation (cid c), Call_getLibrary (cid c) (libraryName cfg)] w)"
  from assms(1) have "name \<in> set (map fst (connectors cfg))"
    by (rule registered)
  then have "setConnector cfg name sg w = initializeConnectorValues cfg name (orDefault sg) w"
    using assms(2) by (rule setConnector_attempts)
  moreover have "tryActivation cfg name w = (Resolves (), dispatchWeb3State cfg ?a ?w1)"
    using assms by (simp add: tryActivation_def fetchBoth_def)
  ultimately have eq: "setConnector cfg name sg w = (Resolves (), dispatchWeb3State cfg ?a ?w1)"
    by (simp add: initializeConnectorValues_def)
  have "trace (dispatchWeb3State cfg ?a ?w1) =
          trace w @ [Call_onActivation (cid c), Call_getLibrary (cid c) (libraryName cfg),
                     Call_getNetworkId (cid c) lib, Dispatch ?a]"
    by (simp add: dispatch_trace)
  moreover have "\<forall>i l. Call_getAccount i l \<notin>
      set [Call_onActivation (cid c), Call_getLibrary (cid c) (libraryName cfg),
           Call_getNetworkId (cid c) lib, Dispatch ?a]"
    by simp
  ultimately have "\<exists>es. trace (dispatchWeb3State cfg ?a ?w1) = trace w @ es \<and>
      (\<forall>i l. Call_getAccount i l \<notin> set es)"
    by blast
  then show ?thesis using eq by (simp add: dispatch_state)
qed

theorem setConnector_lazy_account_witness:
  "map_of (connectors lazyConfig) ''injected'' = Some (sampleConnector 1 (Resolves ()) False) \<and>
   connectorName (web3State initialWorld) \<noteq> Some ''injected'' \<and>
   \<not> activateAccountImmediately (sampleConnector 1 (Resolves ()) False) \<and>
   fst (setConnector lazyConfig ''injected'' None initialWorld) = Resolves () \<and>
   account (web3State (snd (setConnector lazyConfig ''injected'' None initialWorld))) =
     AccountNull"
  using setConnector_lazy_account
    [of lazyConfig "''injected''" "sampleConnector 1 (Resolves ()) False" initialWorld
        "LibraryHandle 1" 1 None]
  by (simp add: lazyConfig_def sampleConfig_def sampleConnector_def initialWorld_def
      initialWeb3State_def)

section \<open>activateAccount and the account listener\<close>

text \<open>
  C7. \<open>activateAccount\<close> resolves and does nothing but log to the console, so it
  changes neither the snapshot nor the hooks and fetches no account, whenever the
  manager is not initialized, or the snapshot's account is not \<^verbatim>\<open>null\<close>, or there is no
  active connector or no library.
\<close>

theorem activateAccount_guards:
  assumes "\<not> web3Initialized (web3State w) \<or> account (web3State w) \<noteq> AccountNull \<or>
           activeConnector cfg (web3State w) = None \<or> library (web3State w) = None"
  shows "fst (activateAccount cfg sg w) = Resolves () \<and>
         web3State (snd (activateAccount cfg sg w)) = web3State w \<and>
         hooks (snd (activateAccount cfg sg w)) = hooks w \<and>
         trace (snd (activateAccount cfg sg w)) = trace w @ [ConsoleError]"
  using assms by (auto simp: activateAccount_def split: option.splits)

theorem activateAccount_guards_witness:
  "\<not> web3Initialized (web3State initialWorld) \<and>
   fst (activateAccount lazyConfig None initialWorld) = Resolves () \<and>
   web3State (snd (activateAccount lazyConfig None initialWorld)) = initialWeb3State \<and>
   trace (snd (activateAccount lazyConfig None initialWorld)) = [ConsoleError]"
  using activateAccount_guards [of initialWorld lazyConfig None]
  by (simp add: initialWorld_def initialWeb3State_def web3Initialized_def truthy_string_def)

text \<open>
  C8. The account listener dispatches \<^verbatim>\<open>UPDATE_ACCOUNT\<close> with the first element of
  the list it is given and nothing else: the snapshot changes in its account only. For
  the empty list the account committed is \<^verbatim>\<open>undefined\<close>, which is neither \<^verbatim>\<open>null\<close> nor
  a reset of the snapshot.
\<close>

theorem accountsChanged_first_account:
  "web3State (accountsChangedListenerHandler cfg accounts w) =
     (web3State w)\<lparr>account := (case accounts of [] \<Rightarrow> AccountUndefined | a # _ \<Rightarrow> Account a)\<rparr> \<and>
   (\<exists>es. trace (accountsChangedListenerHandler cfg accounts w) =
           trace w @
           Dispatch (UPDATE_ACCOUNT
             (case accounts of [] \<Rightarrow> AccountUndefined | a # _ \<Rightarrow> Account a)) # es \<and>
         (\<forall>a. Dispatch a \<notin> set es)) \<and>
   web3State (accountsChangedListenerHandler cfg [] w) =
     (web3State w)\<lparr>account := AccountUndefined\<rparr>"
proof -
  let ?x = "firstAccount accounts"
  have x: "?x = (case accounts of [] \<Rightarrow> AccountUndefined | a # _ \<Rightarrow> Account a)"
    by (simp add: firstAccount_def)
  have "trace (accountsChangedListenerHandler cfg accounts w) =
          trace w @ Dispatch (UPDATE_ACCOUNT ?x) # []"
    by (simp add: accountsChangedListenerHandler_def dispatch_trace)
  moreover have "\<forall>a. Dispatch a \<notin> set []" by simp
  ultimately have "\<exists>es. trace (accountsChangedListenerHandler cfg accounts w) =
               trace w @ Dispatch (UPDATE_ACCOUNT ?x) # es \<and> (\<forall>a. Dispatch a \<notin> set es)"
    by blast
  then show ?thesis
    unfolding x by (simp add: accountsChangedListenerHandler_def dispatch_state firstAccount_def)
qed

section \<open>The lifecycle of the active connector\<close>

subsection \<open>Moves\<close>

lemma emit_emit [simp]: "emit es (emit es' w) = emit (es' @ es) w"
  by (simp add: emit_def)

lemma emit_Nil [simp]: "emit [] w = w"
  by (simp add: emit_def)

lemma moves_refl: "moves cfg w w"
  using moves.silent [of "[]" cfg w] by simp















lemma handlersAfter_append:
  "handlersAfter st (xs @ ys) =
     (case handlersAfter st xs of None \<Rightarrow> None | Some st' \<Rightarrow> handlersAfter st' ys)"
  by (induction xs arbitrary: st) (simp_all split: option.split)







subsection \<open>Every step of a call is a move\<close>






subsection \<open>The effects of a render\<close>










subsection \<open>Soundness of every schedule\<close>














subsection \<open>Deactivations and listeners in a schedule\<close>






lemma handlersAfter_prefix:
  "handlersAfter st (xs @ ys) \<noteq> None \<Longrightarrow> handlersAfter st xs \<noteq> None"
  by (simp add: handlersAfter_append split: option.splits)

subsection \<open>A call that nothing interrupts\<close>

text \<open>
  When the promises of a call settle one after the other with nothing in between, the
  steps above do to the world what the operation of the earlier section does.
\<close>

lemma closure_latest [simp]: "closureSnapshot m 0 = rendered m"
  by (simp add: closureSnapshot_def)

lemma setConnector_uninterleaved:
  assumes "tasks m = []" and "rendered m = web3State (now m)"
  shows "now (schedule cfg [CallSetConnector name sg 0, Settle 0, Settle 0, Settle 0] m) =
           snd (setConnector cfg name sg (now m))"
proof (cases "name \<in> set (map fst (connectors cfg)) \<and> Some name \<noteq> connectorName (rendered m)")
  case False
  then show ?thesis using assms
    by (auto simp: startSetConnector_def setConnector_def spawned_def)
next
  case True
  show ?thesis
  proof (cases "map_of (connectors cfg) name")
    case None
    with True assms show ?thesis
      by (simp add: startSetConnector_def setConnector_def spawned_def
          initializeConnectorValues_def tryActivation_def)
  next
    case (Some c)
    show ?thesis
    proof (cases "onActivation c")
      case (Rejects e)
      with True Some assms show ?thesis
        by (simp add: startSetConnector_def setConnector_def spawned_def
            initializeConnectorValues_def tryActivation_def)
    next
      case a: (Resolves u)
      show ?thesis
      proof (cases "getLibrary c (libraryName cfg)")
        case (Rejects e)
        with True Some a assms show ?thesis
          by (simp add: startSetConnector_def setConnector_def spawned_def
              initializeConnectorValues_def tryActivation_def)
      next
        case l: (Resolves lib)
        show ?thesis
        proof (cases "promiseAll2 (accountSettlesFirst c) (getNetworkId c lib)
            (if activateAccountImmediately c then getAccount c lib else Resolves AccountNull)")
          case (Rejects e)
          with True Some a l assms show ?thesis
            by (simp add: startSetConnector_def setConnector_def spawned_def
                initializeConnectorValues_def tryActivation_def fetchBoth_def fetchCalls_def)
        next
          case (Resolves r)
          with True Some a l assms show ?thesis
            by (cases r)
              (simp add: startSetConnector_def setConnector_def spawned_def
                initializeConnectorValues_def tryActivation_def fetchBoth_def fetchCalls_def)
        qed
      qed
    qed
  qed
qed

lemma activateAccount_uninterleaved:
  assumes "tasks m = []" and "rendered m = web3State (now m)"
  shows "now (schedule cfg [CallActivateAccount sg 0, Settle 0] m) =
           snd (activateAccount cfg sg (now m))"
  using assms
  by (auto simp: startActivateAccount_def activateAccount_def spawned_def
      split: option.splits settled.splits)


subsection \<open>The lifecycle\<close>






end
